theory Spec2Isabelle
  imports Main
begin

section \<open>Data model (types.ts)\<close>

text \<open>
  \<^verbatim>\<open>ErrorType\<close> is a closed union of six string literals; \<open>ErrorType_string\<close> gives the
  string each constructor stands for. Strings are byte lists (UTF-8 for the two
  non-ASCII letters of the offline message); no operation below depends on the length
  of a message.
\<close>

datatype ErrorType = network | validation | cart | checkout | general | auth

fun ErrorType_string :: "ErrorType \<Rightarrow> string" where
  "ErrorType_string network = ''network''"
| "ErrorType_string validation = ''validation''"
| "ErrorType_string cart = ''cart''"
| "ErrorType_string checkout = ''checkout''"
| "ErrorType_string general = ''general''"
| "ErrorType_string auth = ''auth''"

text \<open>
  The optional action button: a label and a zero-argument callback. The callback is
  opaque to the store, so its type is a parameter.
\<close>

record 'h action =
  label :: string
  handler :: 'h

text \<open>
  \<^verbatim>\<open>CreateErrorInput = Omit<AppError, 'id' | 'timestamp'>\<close>. Optional fields are options.
  The metadata object \<^verbatim>\<open>context?: Record<string, unknown>\<close> is a parameter \<open>'c\<close>; the
  field is spelled \<open>context'\<close> and the identifier \<open>id'\<close> because the plain words are
  taken in Isabelle.
\<close>

record ('c, 'h) CreateErrorInput =
  type :: ErrorType
  message :: string
  details :: "string option"
  stack :: "string option"
  recoverable :: "bool option"
  code :: "string option"
  context' :: "'c option"
  action :: "'h action option"

record ('c, 'h) AppError = "('c, 'h) CreateErrorInput" +
  id' :: string
  timestamp :: int

section \<open>JavaScript built-ins used by the store\<close>

text \<open>
  \<^verbatim>\<open>Array.prototype.slice(start)\<close> with one argument, on integers: a negative start counts
  from the end and is clamped at 0, a non-negative start is clamped at the length.
  \<^verbatim>\<open>slice(-0)\<close> is \<^verbatim>\<open>slice(0)\<close>: the whole array.
\<close>

definition slice_from :: "int \<Rightarrow> 'a list \<Rightarrow> 'a list" where
  "slice_from start xs =
     (let len = int (length xs);
          k = (if start < 0 then max (len + start) 0 else min start len)
      in drop (nat k) xs)"

text \<open>\<^verbatim>\<open>String.prototype.substr(start, length)\<close> for non-negative arguments.\<close>

definition substr :: "nat \<Rightarrow> nat \<Rightarrow> string \<Rightarrow> string" where
  "substr start n s = take n (drop start s)"

text \<open>
  \<^verbatim>\<open>toUpperCase\<close> on ASCII letters, which is all the store applies it to (the six
  type strings).
\<close>

definition upper_char :: "char \<Rightarrow> char" where
  "upper_char c =
     (case map_of (zip ''abcdefghijklmnopqrstuvwxyz'' ''ABCDEFGHIJKLMNOPQRSTUVWXYZ'') c of
        Some u \<Rightarrow> u
      | None \<Rightarrow> c)"

definition toUpperCase :: "string \<Rightarrow> string" where
  "toUpperCase s = map upper_char s"

text \<open>
  A number inside a template literal: the decimal digits of an integer, with a minus
  sign when negative (\<^verbatim>\<open>Date.now()\<close> is an integer far below the exponent notation
  threshold).
\<close>

definition digit_char :: "nat \<Rightarrow> char" where
  "digit_char d = ''0123456789'' ! d"

fun nat_to_string :: "nat \<Rightarrow> string" where
  "nat_to_string n =
     (if n < 10 then [digit_char n]
      else nat_to_string (n div 10) @ [digit_char (n mod 10)])"

declare nat_to_string.simps [simp del]

definition number_to_string :: "int \<Rightarrow> string" where
  "number_to_string i =
     (if i < 0 then CHR ''-'' # nat_to_string (nat (- i)) else nat_to_string (nat i))"

section \<open>The state machine (machines/error.machine.ts)\<close>

text \<open>
  The machine's context. \<^verbatim>\<open>maxErrors\<close> is a JavaScript number; the model covers its
  integer values, negative ones and zero included.
\<close>

record ('c, 'h) ErrorMachineContext =
  errors :: "('c, 'h) AppError list"
  globalError :: "('c, 'h) AppError option"
  isOnline :: bool
  maxErrors :: int

datatype ('c, 'h) ErrorMachineEvent =
    ADD_ERROR "('c, 'h) CreateErrorInput"
  | REMOVE_ERROR string
  | CLEAR_ERRORS
  | SET_GLOBAL_ERROR "('c, 'h) AppError option"
  | SET_ONLINE_STATUS bool
  | SET_MAX_ERRORS int

text \<open>
  What one \<^verbatim>\<open>ADD_ERROR\<close> reads from the runtime: \<^verbatim>\<open>Date.now()\<close> inside
  \<^verbatim>\<open>generateErrorId\<close>, \<^verbatim>\<open>Date.now()\<close> again for the timestamp field, and the
  base-36 rendering \<^verbatim>\<open>Math.random().toString(36)\<close>.
\<close>

record runtime =
  now_id :: int
  now_ts :: int
  random36 :: string

definition generateErrorId :: "runtime \<Rightarrow> string" where
  "generateErrorId rt =
     ''error_'' @ number_to_string (now_id rt) @ ''_'' @ substr 2 9 (random36 rt)"

text \<open>
  \<^verbatim>\<open>JSON.stringify(_, null, 2)\<close> is the parameter \<open>stringify\<close>: on a metadata object
  it gives the text the template literal inserts (\<open>Inr\<close>), or the exception it throws
  (\<open>Inl\<close>), as it does on a cyclic object or one holding a BigInt.

  \<^verbatim>\<open>logErrorToConsole\<close> evaluates four arguments and then makes one \<^verbatim>\<open>console.error\<close>
  call with them; the model returns that argument list, or the exception thrown while
  the third argument is evaluated, in which case no call is made. An empty string is
  falsy, so empty details or an empty stack print as the empty string; a metadata
  object is always truthy.
\<close>

definition logErrorToConsole ::
  "('c \<Rightarrow> 'x + string) \<Rightarrow> ('c, 'h) AppError \<Rightarrow> 'x + string list" where
  "logErrorToConsole stringify error =
     (case (case context' error of
              Some x \<Rightarrow>
                (case stringify x of
                   Inl thrown \<Rightarrow> Inl thrown
                 | Inr json \<Rightarrow> Inr ([CHR 0x0A] @ ''Context: '' @ json))
            | None \<Rightarrow> Inr [])
      of
        Inl thrown \<Rightarrow> Inl thrown
      | Inr context_text \<Rightarrow>
          Inr [''['' @ toUpperCase (ErrorType_string (type error)) @ ''] '' @ message error,
               (case details error of
                  Some d \<Rightarrow> if d \<noteq> [] then [CHR 0x0A] @ ''Details: '' @ d else []
                | None \<Rightarrow> []),
               context_text,
               (case stack error of
                  Some s \<Rightarrow> if s \<noteq> [] then [CHR 0x0A] @ ''Stack: '' @ s else []
                | None \<Rightarrow> [])])"

text \<open>
  Two kinds of metadata object for the instances below: one given by its JSON text, and
  a cyclic one, on which \<^verbatim>\<open>JSON.stringify\<close> throws a TypeError.
\<close>

datatype sample_context = Json string | Cyclic

fun sample_stringify :: "sample_context \<Rightarrow> string + string" where
  "sample_stringify (Json text) = Inr text"
| "sample_stringify Cyclic = Inl ''TypeError: Converting circular structure to JSON''"

text \<open>
  The initial context. \<open>navigator_onLine\<close> is \<open>None\<close> where \<^verbatim>\<open>navigator\<close> is
  undefined.
\<close>

definition initial_context :: "bool option \<Rightarrow> ('c, 'h) ErrorMachineContext" where
  "initial_context navigator_onLine =
     \<lparr>errors = [],
      globalError = None,
      isOnline = (case navigator_onLine of Some b \<Rightarrow> b | None \<Rightarrow> True),
      maxErrors = 50\<rparr>"

text \<open>
  \<open>newError\<close> is \<^verbatim>\<open>{...event.payload, id: generateErrorId(), timestamp: Date.now()}\<close>:
  every field of the payload is copied, then the identifier and the timestamp are set.
\<close>

definition newError :: "runtime \<Rightarrow> ('c, 'h) CreateErrorInput \<Rightarrow> ('c, 'h) AppError" where
  "newError rt payload =
     \<lparr>type = type payload,
      message = message payload,
      details = details payload,
      stack = stack payload,
      recoverable = recoverable payload,
      code = code payload,
      context' = context' payload,
      action = action payload,
      id' = generateErrorId rt,
      timestamp = now_ts rt\<rparr>"

text \<open>
  One transition of the single state \<^verbatim>\<open>active\<close>: the new context and the
  \<^verbatim>\<open>console.error\<close> calls made on the way, in order (\<open>Inr\<close>); or the exception thrown
  inside the assigner (\<open>Inl\<close>), in which case nothing is assigned. In \<^verbatim>\<open>ADD_ERROR\<close> the
  record is logged before the list is built, and in \<^verbatim>\<open>SET_GLOBAL_ERROR\<close> before the
  payload is returned.
\<close>

fun transition ::
  "('c \<Rightarrow> 'x + string) \<Rightarrow> runtime \<Rightarrow> ('c, 'h) ErrorMachineContext \<Rightarrow> ('c, 'h) ErrorMachineEvent
     \<Rightarrow> 'x + ('c, 'h) ErrorMachineContext \<times> string list list" where
  "transition stringify rt c (ADD_ERROR payload) =
     (let e = newError rt payload
      in case logErrorToConsole stringify e of
           Inl thrown \<Rightarrow> Inl thrown
         | Inr entry \<Rightarrow>
             (let updated = errors c @ [e]
              in Inr (c\<lparr>errors := slice_from (- maxErrors c) updated\<rparr>, [entry])))"
| "transition stringify rt c (REMOVE_ERROR x) =
     Inr (c\<lparr>errors := filter (\<lambda>error. id' error \<noteq> x) (errors c)\<rparr>, [])"
| "transition stringify rt c CLEAR_ERRORS = Inr (c\<lparr>errors := []\<rparr>, [])"
| "transition stringify rt c (SET_GLOBAL_ERROR None) = Inr (c\<lparr>globalError := None\<rparr>, [])"
| "transition stringify rt c (SET_GLOBAL_ERROR (Some e)) =
     (case logErrorToConsole stringify e of
        Inl thrown \<Rightarrow> Inl thrown
      | Inr entry \<Rightarrow> Inr (c\<lparr>globalError := Some e\<rparr>, [entry]))"
| "transition stringify rt c (SET_ONLINE_STATUS b) = Inr (c\<lparr>isOnline := b\<rparr>, [])"
| "transition stringify rt c (SET_MAX_ERRORS n) = Inr (c\<lparr>maxErrors := n\<rparr>, [])"

text \<open>
  Events are processed one at a time, each to completion. A step pairs an event with
  what the runtime returns while it is processed. A transition that throws assigns
  nothing, so the context after such a step is the context before it.
\<close>

definition step ::
  "('c \<Rightarrow> 'x + string) \<Rightarrow> ('c, 'h) ErrorMachineContext \<Rightarrow> runtime \<times> ('c, 'h) ErrorMachineEvent
     \<Rightarrow> ('c, 'h) ErrorMachineContext" where
  "step stringify c s =
     (case transition stringify (fst s) c (snd s) of
        Inl thrown \<Rightarrow> c
      | Inr (c', out) \<Rightarrow> c')"

definition run ::
  "('c \<Rightarrow> 'x + string) \<Rightarrow> ('c, 'h) ErrorMachineContext \<Rightarrow> (runtime \<times> ('c, 'h) ErrorMachineEvent) list
     \<Rightarrow> ('c, 'h) ErrorMachineContext" where
  "run stringify c steps = foldl (step stringify) c steps"

text \<open>
  The utility constructors of the module. \<open>details\<close> is \<open>None\<close> where the caller
  passes \<^verbatim>\<open>undefined\<close>, and the field is then left out.
\<close>

definition createNetworkError :: "string \<Rightarrow> string option \<Rightarrow> ('c, 'h) CreateErrorInput" where
  "createNetworkError msg dt =
     \<lparr>type = network, message = msg, details = dt, stack = None, recoverable = Some True,
      code = None, context' = None, action = None\<rparr>"

definition createValidationError :: "string \<Rightarrow> string option \<Rightarrow> ('c, 'h) CreateErrorInput" where
  "createValidationError msg dt =
     \<lparr>type = validation, message = msg, details = dt, stack = None, recoverable = Some True,
      code = None, context' = None, action = None\<rparr>"

definition createCartError :: "string \<Rightarrow> string option \<Rightarrow> ('c, 'h) CreateErrorInput" where
  "createCartError msg dt =
     \<lparr>type = cart, message = msg, details = dt, stack = None, recoverable = Some True,
      code = None, context' = None, action = None\<rparr>"

definition createCheckoutError :: "string \<Rightarrow> string option \<Rightarrow> ('c, 'h) CreateErrorInput" where
  "createCheckoutError msg dt =
     \<lparr>type = checkout, message = msg, details = dt, stack = None, recoverable = Some False,
      code = None, context' = None, action = None\<rparr>"

definition createGeneralError :: "string \<Rightarrow> string option \<Rightarrow> ('c, 'h) CreateErrorInput" where
  "createGeneralError msg dt =
     \<lparr>type = general, message = msg, details = dt, stack = None, recoverable = Some False,
      code = None, context' = None, action = None\<rparr>"

definition createAuthError :: "string \<Rightarrow> string option \<Rightarrow> ('c, 'h) CreateErrorInput" where
  "createAuthError msg dt =
     \<lparr>type = auth, message = msg, details = dt, stack = None, recoverable = Some True,
      code = None, context' = None, action = None\<rparr>"

text \<open>The context after each command of a run, in order.\<close>

fun contexts_after ::
  "('c \<Rightarrow> 'x + string) \<Rightarrow> ('c, 'h) ErrorMachineContext \<Rightarrow> (runtime \<times> ('c, 'h) ErrorMachineEvent) list
     \<Rightarrow> ('c, 'h) ErrorMachineContext list" where
  "contexts_after stringify c [] = []"
| "contexts_after stringify c (s # rest) =
     step stringify c s # contexts_after stringify (step stringify c s) rest"

text \<open>
  A run in which every \<^verbatim>\<open>SET_MAX_ERRORS\<close> carries a positive bound that is not below
  the number of records held when it is processed.
\<close>

fun capacity_not_lowered ::
  "('c \<Rightarrow> 'x + string) \<Rightarrow> ('c, 'h) ErrorMachineContext \<Rightarrow> (runtime \<times> ('c, 'h) ErrorMachineEvent) list
     \<Rightarrow> bool" where
  "capacity_not_lowered stringify c [] = True"
| "capacity_not_lowered stringify c (s # rest) =
     ((case snd s of
         SET_MAX_ERRORS n \<Rightarrow> 1 \<le> n \<and> int (length (errors c)) \<le> n
       | _ \<Rightarrow> True)
      \<and> capacity_not_lowered stringify (step stringify c s) rest)"

section \<open>The runtime signal bridge (context/ErrorToastProvider.tsx)\<close>

text \<open>
  \<^verbatim>\<open>handleOffline\<close> of \<^verbatim>\<open>ErrorToastProviderInner\<close> sends two events to the machine:
  \<^verbatim>\<open>SET_ONLINE_STATUS\<close> with \<^verbatim>\<open>false\<close>, then \<^verbatim>\<open>ADD_ERROR\<close> with a fixed payload. The
  message is Portuguese; its two accented letters are written as their UTF-8 bytes.
\<close>

definition offline_message :: string where
  "offline_message =
     ''Voc'' @ [CHR 0xC3, CHR 0xAA] @ '' est'' @ [CHR 0xC3, CHR 0xA1]
       @ '' offline. Verifique sua conex'' @ [CHR 0xC3, CHR 0xA3] @ ''o com a internet.''"

definition offline_payload :: "('c, 'h) CreateErrorInput" where
  "offline_payload =
     \<lparr>type = network,
      message = offline_message,
      details = None,
      stack = None,
      recoverable = Some True,
      code = None,
      context' = None,
      action = None\<rparr>"

definition handleOffline ::
  "('c \<Rightarrow> 'x + string) \<Rightarrow> runtime \<Rightarrow> ('c, 'h) ErrorMachineContext
     \<Rightarrow> 'x + ('c, 'h) ErrorMachineContext \<times> string list list" where
  "handleOffline stringify rt c =
     (case transition stringify rt c (SET_ONLINE_STATUS False) of
        Inl thrown \<Rightarrow> Inl thrown
      | Inr (c1, out1) \<Rightarrow>
          (case transition stringify rt c1 (ADD_ERROR offline_payload) of
             Inl thrown \<Rightarrow> Inl thrown
           | Inr (c2, out2) \<Rightarrow> Inr (c2, out1 @ out2)))"

section \<open>The plain-state store (ErrorProvider, context/ErrorContext)\<close>

text \<open>
  The props of \<^verbatim>\<open>ErrorProvider\<close> with their defaults, and its three \<^verbatim>\<open>useState\<close> cells.
  Names carry a prime where the machine's context already has the field.
\<close>

record ErrorProviderProps =
  maxErrors' :: int
  deduplicationWindow :: int

definition default_props :: ErrorProviderProps where
  "default_props = \<lparr>maxErrors' = 50, deduplicationWindow = 1000\<rparr>"

record ('c, 'h) ErrorProviderState =
  errors' :: "('c, 'h) AppError list"
  isOnline' :: bool
  globalError' :: "('c, 'h) AppError option"

text \<open>
  \<^verbatim>\<open>addError\<close> reads \<^verbatim>\<open>Date.now()\<close> once (\<open>now\<close>) and \<^verbatim>\<open>Math.random().toString(36)\<close>
  once (\<open>rnd\<close>); \<open>appError\<close> is the record it builds from them and the input.

  The callback closes over the \<^verbatim>\<open>errors\<close> of the render that created it (\<open>rendered\<close>)
  and tests that list for duplicates; the record is appended by the updater
  \<^verbatim>\<open>setErrors(prev => ...)\<close>, which receives the pending state (\<open>prev\<close>). The two are
  the same state only for the first call made after a render. On a duplicate the
  callback returns without calling \<^verbatim>\<open>setErrors\<close>. Its body makes no \<^verbatim>\<open>console.error\<close>
  call: the list of calls it returns is empty on both paths.
\<close>

definition appError :: "int \<Rightarrow> string \<Rightarrow> ('c, 'h) CreateErrorInput \<Rightarrow> ('c, 'h) AppError" where
  "appError now rnd input =
     \<lparr>type = type input,
      message = message input,
      details = details input,
      stack = stack input,
      recoverable = recoverable input,
      code = code input,
      context' = context' input,
      action = action input,
      id' = ''error_'' @ number_to_string now @ ''_'' @ substr 2 9 rnd,
      timestamp = now\<rparr>"

definition addError ::
  "ErrorProviderProps \<Rightarrow> int \<Rightarrow> string \<Rightarrow> ('c, 'h) ErrorProviderState \<Rightarrow> ('c, 'h) ErrorProviderState
     \<Rightarrow> ('c, 'h) CreateErrorInput \<Rightarrow> ('c, 'h) ErrorProviderState \<times> string list list" where
  "addError props now rnd rendered prev input =
     (let isDuplicate =
            list_ex (\<lambda>existingError.
                       let timeDiff = now - timestamp existingError
                       in message existingError = message input
                          \<and> type existingError = type input
                          \<and> timeDiff < deduplicationWindow props)
                    (errors' rendered)
      in if isDuplicate then (prev, [])
         else (prev\<lparr>errors' := slice_from (- maxErrors' props) (errors' prev @ [appError now rnd input])\<rparr>,
               []))"

text \<open>\<^verbatim>\<open>setGlobalError\<close> is the bare setter of a \<^verbatim>\<open>useState\<close> cell.\<close>

definition setGlobalError ::
  "('c, 'h) ErrorProviderState \<Rightarrow> ('c, 'h) AppError option
     \<Rightarrow> ('c, 'h) ErrorProviderState \<times> string list list" where
  "setGlobalError st e = (st\<lparr>globalError' := e\<rparr>, [])"

section \<open>The context hooks\<close>

text \<open>
  A context value as the hooks see it: \<^verbatim>\<open>null\<close>, \<^verbatim>\<open>undefined\<close> or the object a
  provider passes down. \<^verbatim>\<open>useContext\<close> returns the value of the nearest enclosing
  provider, or the default given to \<^verbatim>\<open>createContext\<close> when there is none.
\<close>

datatype 'v context_value = Null | Undefined | Object 'v

datatype Error = Error string

definition useContext :: "'v context_value \<Rightarrow> 'v context_value option \<Rightarrow> 'v context_value" where
  "useContext defaultValue nearest_provider =
     (case nearest_provider of None \<Rightarrow> defaultValue | Some v \<Rightarrow> v)"

text \<open>\<^verbatim>\<open>ErrorToastContext = createContext(null)\<close>; the hook throws on \<^verbatim>\<open>null\<close>.\<close>

definition useErrorToast :: "'v context_value option \<Rightarrow> Error + 'v context_value" where
  "useErrorToast nearest_provider =
     (let context = useContext Null nearest_provider
      in if context = Null
         then Inl (Error ''useErrorToast must be used within an ErrorToastProvider'')
         else Inr context)"

text \<open>\<^verbatim>\<open>ErrorContext = createContext(undefined)\<close>; the hook throws on \<^verbatim>\<open>undefined\<close>.\<close>

definition useErrorContext :: "'v context_value option \<Rightarrow> Error + 'v context_value" where
  "useErrorContext nearest_provider =
     (let context = useContext Undefined nearest_provider
      in if context = Undefined
         then Inl (Error ''useErrorContext must be used within an ErrorProvider'')
         else Inr context)"

text \<open>
  Both providers pass down the object \<^verbatim>\<open>value\<close> built in their body, never \<^verbatim>\<open>null\<close>
  or \<^verbatim>\<open>undefined\<close>.
\<close>

definition Provider_value :: "'v \<Rightarrow> 'v context_value option" where
  "Provider_value v = Some (Object v)"

section \<open>Facts about the built-ins and the log call\<close>

lemma slice_from_neg: "1 \<le> m \<Longrightarrow> slice_from (- m) xs = drop (length xs - nat m) xs"
  by (auto simp: slice_from_def Let_def max_def nat_diff_distrib' intro!: arg_cong2[where f=drop])

lemma length_slice_from_neg: "1 \<le> m \<Longrightarrow> length (slice_from (- m) xs) = min (length xs) (nat m)"
  by (simp add: slice_from_neg)

text \<open>A record without a metadata object is logged without calling \<^verbatim>\<open>JSON.stringify\<close>.\<close>

lemma logErrorToConsole_no_context:
  "context' e = None \<Longrightarrow>
   logErrorToConsole sf e =
     Inr [''['' @ toUpperCase (ErrorType_string (type e)) @ ''] '' @ message e,
          (case details e of Some d \<Rightarrow> if d \<noteq> [] then [CHR 0x0A] @ ''Details: '' @ d else []
           | None \<Rightarrow> []),
          [],
          (case stack e of Some s \<Rightarrow> if s \<noteq> [] then [CHR 0x0A] @ ''Stack: '' @ s else []
           | None \<Rightarrow> [])]"
  by (simp add: logErrorToConsole_def)

text \<open>The log call throws exactly when \<^verbatim>\<open>JSON.stringify\<close> throws on the metadata object.\<close>

lemma logErrorToConsole_throws:
  "logErrorToConsole sf e = Inl thrown \<longleftrightarrow> (\<exists>x. context' e = Some x \<and> sf x = Inl thrown)"
  by (auto simp: logErrorToConsole_def split: option.splits sum.splits)

text \<open>\<^verbatim>\<open>ADD_ERROR\<close> returns what the log call throws, and otherwise appends and cuts.\<close>

lemma ADD_ERROR_throws:
  "logErrorToConsole sf (newError rt p) = Inl thrown \<Longrightarrow>
   transition sf rt c (ADD_ERROR p) = Inl thrown"
  by (simp add: Let_def)

lemma ADD_ERROR_returns:
  "logErrorToConsole sf (newError rt p) = Inr entry \<Longrightarrow>
   transition sf rt c (ADD_ERROR p) =
     Inr (c\<lparr>errors := slice_from (- maxErrors c) (errors c @ [newError rt p])\<rparr>, [entry])"
  by (simp add: Let_def)

section \<open>The bound on the number of records\<close>

lemma step_bounded:
  assumes "int (length (errors c)) \<le> maxErrors c" and "1 \<le> maxErrors c"
    and "case snd s of SET_MAX_ERRORS n \<Rightarrow> 1 \<le> n \<and> int (length (errors c)) \<le> n | _ \<Rightarrow> True"
  shows "int (length (errors (step sf c s))) \<le> maxErrors (step sf c s)
         \<and> 1 \<le> maxErrors (step sf c s)"
proof (cases "snd s")
  case (ADD_ERROR p)
  show ?thesis
  proof (cases "logErrorToConsole sf (newError (fst s) p)")
    case (Inl thrown)
    with ADD_ERROR assms(1,2) show ?thesis
      by (simp add: step_def ADD_ERROR_throws)
  next
    case (Inr entry)
    with ADD_ERROR assms(2) show ?thesis
      by (simp add: step_def ADD_ERROR_returns length_slice_from_neg)
  qed
next
  case (REMOVE_ERROR x)
  have "length (filter (\<lambda>error. id' error \<noteq> x) (errors c)) \<le> length (errors c)"
    by (rule length_filter_le)
  with assms(1) have "int (length (filter (\<lambda>error. id' error \<noteq> x) (errors c))) \<le> maxErrors c"
    by linarith
  with REMOVE_ERROR assms(2) show ?thesis by (simp add: step_def)
next
  case CLEAR_ERRORS
  with assms(2) show ?thesis by (simp add: step_def)
next
  case (SET_GLOBAL_ERROR g)
  show ?thesis
  proof (cases g)
    case None
    with SET_GLOBAL_ERROR assms(1,2) show ?thesis by (simp add: step_def)
  next
    case (Some e)
    with SET_GLOBAL_ERROR assms(1,2) show ?thesis
      by (cases "logErrorToConsole sf e") (simp_all add: step_def)
  qed
next
  case (SET_ONLINE_STATUS b)
  with assms(1,2) show ?thesis by (simp add: step_def)
next
  case (SET_MAX_ERRORS n)
  with assms(3) show ?thesis by (simp add: step_def)
qed

lemma contexts_after_bounded:
  assumes "capacity_not_lowered sf c steps"
    and "int (length (errors c)) \<le> maxErrors c" and "1 \<le> maxErrors c"
  shows "\<forall>c' \<in> set (contexts_after sf c steps). int (length (errors c')) \<le> maxErrors c'"
  using assms
proof (induction steps arbitrary: c)
  case Nil
  then show ?case by simp
next
  case (Cons s rest)
  from Cons.prems have ok: "case snd s of SET_MAX_ERRORS n \<Rightarrow> 1 \<le> n \<and> int (length (errors c)) \<le> n | _ \<Rightarrow> True"
    and rest: "capacity_not_lowered sf (step sf c s) rest" by simp_all
  from step_bounded[OF Cons.prems(2,3) ok, of sf]
  have b: "int (length (errors (step sf c s))) \<le> maxErrors (step sf c s)"
    and p: "1 \<le> maxErrors (step sf c s)" by blast+
  from Cons.IH[OF rest b p] b show ?case by simp
qed

text \<open>
  C1 (as amended). Starting from the initial snapshot, \<open>length records \<le> capacity\<close>
  holds after every command of every sequence of registry commands in which each
  SetCapacity carries a positive bound that is not below the number of records held at
  that moment. SetCapacity itself never removes a record.
\<close>

theorem C1_bounded_when_capacity_not_lowered:
  "capacity_not_lowered sf (initial_context nav) steps \<Longrightarrow>
   \<forall>c \<in> set (contexts_after sf (initial_context nav) steps).
     int (length (errors c)) \<le> maxErrors c"
  by (rule contexts_after_bounded) (simp_all add: initial_context_def)

text \<open>
  An instance: one record is added, the capacity is set to 1, a second record is added;
  the bound holds after each of the three commands.
\<close>

theorem C1_witness:
  "capacity_not_lowered sample_stringify (initial_context None)
     [(\<lparr>now_id = 1000, now_ts = 1000, random36 = ''0.i''\<rparr>, ADD_ERROR (createCartError ''A'' None)),
      (\<lparr>now_id = 1001, now_ts = 1001, random36 = ''0.j''\<rparr>, SET_MAX_ERRORS 1),
      (\<lparr>now_id = 1002, now_ts = 1002, random36 = ''0.k''\<rparr>,
          ADD_ERROR (createCartError ''B'' None :: (sample_context, unit) CreateErrorInput))]
   \<and> list_all (\<lambda>c. int (length (errors c)) \<le> maxErrors c)
       (contexts_after sample_stringify (initial_context None)
         [(\<lparr>now_id = 1000, now_ts = 1000, random36 = ''0.i''\<rparr>, ADD_ERROR (createCartError ''A'' None)),
          (\<lparr>now_id = 1001, now_ts = 1001, random36 = ''0.j''\<rparr>, SET_MAX_ERRORS 1),
          (\<lparr>now_id = 1002, now_ts = 1002, random36 = ''0.k''\<rparr>,
              ADD_ERROR (createCartError ''B'' None :: (sample_context, unit) CreateErrorInput))])"
proof -
  let ?steps = "[(\<lparr>now_id = 1000, now_ts = 1000, random36 = ''0.i''\<rparr>, ADD_ERROR (createCartError ''A'' None)),
      (\<lparr>now_id = 1001, now_ts = 1001, random36 = ''0.j''\<rparr>, SET_MAX_ERRORS 1),
      (\<lparr>now_id = 1002, now_ts = 1002, random36 = ''0.k''\<rparr>,
          ADD_ERROR (createCartError ''B'' None :: (sample_context, unit) CreateErrorInput))]"
  have h: "capacity_not_lowered sample_stringify (initial_context None) ?steps"
    by (simp add: initial_context_def step_def slice_from_def Let_def logErrorToConsole_def
        newError_def createCartError_def)
  from C1_bounded_when_capacity_not_lowered[OF h]
  have "list_all (\<lambda>c. int (length (errors c)) \<le> maxErrors c)
          (contexts_after sample_stringify (initial_context None) ?steps)"
    by (simp only: list_all_iff)
  with h show ?thesis by blast
qed

text \<open>
  C1 as first stated fails right after a SetCapacity that lowers the capacity below the
  number of records: two records are added under capacity 50, then the capacity is set
  to 1, and the two records are still there.
\<close>

theorem C1_counterexample:
  "\<not> int (length (errors (run sample_stringify (initial_context None)
       [(\<lparr>now_id = 1000, now_ts = 1000, random36 = ''0.i''\<rparr>, ADD_ERROR (createCartError ''A'' None)),
        (\<lparr>now_id = 1001, now_ts = 1001, random36 = ''0.j''\<rparr>,
            ADD_ERROR (createCartError ''B'' None :: (sample_context, unit) CreateErrorInput)),
        (\<lparr>now_id = 1002, now_ts = 1002, random36 = ''0.k''\<rparr>, SET_MAX_ERRORS 1)])))
     \<le> maxErrors (run sample_stringify (initial_context None)
       [(\<lparr>now_id = 1000, now_ts = 1000, random36 = ''0.i''\<rparr>, ADD_ERROR (createCartError ''A'' None)),
        (\<lparr>now_id = 1001, now_ts = 1001, random36 = ''0.j''\<rparr>,
            ADD_ERROR (createCartError ''B'' None :: (sample_context, unit) CreateErrorInput)),
        (\<lparr>now_id = 1002, now_ts = 1002, random36 = ''0.k''\<rparr>, SET_MAX_ERRORS 1)])"
  by (simp add: run_def step_def initial_context_def slice_from_def Let_def logErrorToConsole_def
        newError_def createCartError_def)

section \<open>SET_MAX_ERRORS\<close>

text \<open>
  C2 as first stated fails: with capacity 2 and records B, C, SetCapacity(0) leaves
  both records in place.
\<close>

theorem C2_counterexample:
  "transition sample_stringify \<lparr>now_id = 1003, now_ts = 1003, random36 = ''0.l''\<rparr>
         \<lparr>errors = [newError \<lparr>now_id = 1001, now_ts = 1001, random36 = ''0.j''\<rparr>
                        (createCartError ''B'' None :: (sample_context, unit) CreateErrorInput),
                      newError \<lparr>now_id = 1002, now_ts = 1002, random36 = ''0.k''\<rparr>
                        (createCartError ''C'' None)],
           globalError = None, isOnline = True, maxErrors = 2\<rparr>
         (SET_MAX_ERRORS 0)
   = Inr (\<lparr>errors = [newError \<lparr>now_id = 1001, now_ts = 1001, random36 = ''0.j''\<rparr>
                        (createCartError ''B'' None),
                      newError \<lparr>now_id = 1002, now_ts = 1002, random36 = ''0.k''\<rparr>
                        (createCartError ''C'' None)],
           globalError = None, isOnline = True, maxErrors = 0\<rparr>, [])"
  by simp

text \<open>
  C2 (as amended). SetCapacity(n) updates the capacity, leaves the records as they are
  and logs nothing; for \<open>n \<ge> 1\<close> the next AddError whose log call returns cuts the list,
  the new record included, to its \<open>n\<close> most recent entries, discarding the oldest first.
\<close>

theorem C2_set_max_errors_defers_truncation:
  "transition sf rt c (SET_MAX_ERRORS n) = Inr (c\<lparr>maxErrors := n\<rparr>, [])
   \<and> errors (c\<lparr>maxErrors := n\<rparr>) = errors c
   \<and> (1 \<le> n \<and> logErrorToConsole sf (newError rt' p) = Inr entry \<longrightarrow>
        (\<exists>c'. transition sf rt' (c\<lparr>maxErrors := n\<rparr>) (ADD_ERROR p) = Inr (c', [entry])
           \<and> errors c' = drop (length (errors c) + 1 - nat n) (errors c @ [newError rt' p])
           \<and> maxErrors c' = n))"
  by (simp add: ADD_ERROR_returns slice_from_neg)

text \<open>
  An instance: capacity 2 with records B, C; SetCapacity(1) and then AddError(D), whose
  metadata object has the JSON text \<^verbatim>\<open>{}\<close>, leave exactly D.
\<close>

theorem C2_witness:
  "(1::int) \<le> 1
   \<and> logErrorToConsole sample_stringify
         (newError \<lparr>now_id = 1004, now_ts = 1004, random36 = ''0.m''\<rparr>
            ((createCartError ''D'' None :: (sample_context, unit) CreateErrorInput)
               \<lparr>context' := Some (Json ''{}'')\<rparr>))
       = Inr [''[CART] D'', [], [CHR 0x0A] @ ''Context: {}'', []]
   \<and> (\<exists>c'. transition sample_stringify \<lparr>now_id = 1004, now_ts = 1004, random36 = ''0.m''\<rparr>
         (\<lparr>errors = [newError \<lparr>now_id = 1001, now_ts = 1001, random36 = ''0.j''\<rparr>
                        (createCartError ''B'' None :: (sample_context, unit) CreateErrorInput),
                      newError \<lparr>now_id = 1002, now_ts = 1002, random36 = ''0.k''\<rparr>
                        (createCartError ''C'' None)],
           globalError = None, isOnline = True, maxErrors = 2\<rparr>\<lparr>maxErrors := 1\<rparr>)
         (ADD_ERROR ((createCartError ''D'' None) \<lparr>context' := Some (Json ''{}'')\<rparr>))
        = Inr (c', [[''[CART] D'', [], [CHR 0x0A] @ ''Context: {}'', []]])
      \<and> errors c'
          = [newError \<lparr>now_id = 1004, now_ts = 1004, random36 = ''0.m''\<rparr>
               ((createCartError ''D'' None) \<lparr>context' := Some (Json ''{}'')\<rparr>)])"
proof -
  let ?D = "(createCartError ''D'' None :: (sample_context, unit) CreateErrorInput)
               \<lparr>context' := Some (Json ''{}'')\<rparr>"
  let ?rt = "\<lparr>now_id = 1004, now_ts = 1004, random36 = ''0.m''\<rparr>"
  let ?c = "\<lparr>errors = [newError \<lparr>now_id = 1001, now_ts = 1001, random36 = ''0.j''\<rparr>
                        (createCartError ''B'' None :: (sample_context, unit) CreateErrorInput),
                      newError \<lparr>now_id = 1002, now_ts = 1002, random36 = ''0.k''\<rparr>
                        (createCartError ''C'' None)],
           globalError = None, isOnline = True, maxErrors = 2\<rparr>"
  have l: "logErrorToConsole sample_stringify (newError ?rt ?D)
             = Inr [''[CART] D'', [], [CHR 0x0A] @ ''Context: {}'', []]"
    by (simp add: logErrorToConsole_def newError_def createCartError_def toUpperCase_def
        upper_char_def)
  have n: "(1::int) \<le> 1" by simp
  from C2_set_max_errors_defers_truncation[of sample_stringify ?rt ?c 1 ?rt ?D
      "[''[CART] D'', [], [CHR 0x0A] @ ''Context: {}'', []]"] n l
  obtain c' where t: "transition sample_stringify ?rt (?c\<lparr>maxErrors := 1\<rparr>) (ADD_ERROR ?D)
        = Inr (c', [[''[CART] D'', [], [CHR 0x0A] @ ''Context: {}'', []]])"
    and e: "errors c' = drop (length (errors ?c) + 1 - nat 1) (errors ?c @ [newError ?rt ?D])"
    by blast
  from e have "errors c' = [newError ?rt ?D]" by simp
  with t n l show ?thesis by blast
qed

section \<open>ADD_ERROR at capacity\<close>



text \<open>
  Where \<^verbatim>\<open>JSON.stringify\<close> throws, as on a cyclic metadata object, the command fails
  with that exception before the list is built.
\<close>

lemma ADD_ERROR_cyclic_context_throws:
  "transition sample_stringify \<lparr>now_id = 1001, now_ts = 1001, random36 = ''0.j''\<rparr>
     \<lparr>errors = [newError \<lparr>now_id = 1000, now_ts = 1000, random36 = ''0.i''\<rparr>
                   (createCartError ''A'' None :: (sample_context, unit) CreateErrorInput)],
      globalError = None, isOnline = True, maxErrors = 1\<rparr>
     (ADD_ERROR ((createCartError ''B'' None) \<lparr>context' := Some Cyclic\<rparr>))
   = Inl ''TypeError: Converting circular structure to JSON''"
  by (simp add: Let_def logErrorToConsole_def newError_def createCartError_def)

section \<open>Diagnostic logging\<close>

text \<open>
  In the state machine every \<^verbatim>\<open>ADD_ERROR\<close> and every \<^verbatim>\<open>SET_GLOBAL_ERROR\<close> with a record
  that does not throw makes exactly one \<^verbatim>\<open>console.error\<close> call, computed from the record
  alone; its first argument is the upper-cased type in brackets followed by the
  message. Clearing the global error logs nothing.
\<close>

lemma machine_logs_once:
  "(logErrorToConsole sf (newError rt p) = Inr entry \<longrightarrow>
      (\<exists>c'. transition sf rt c (ADD_ERROR p) = Inr (c', [entry]))
      \<and> hd entry = ''['' @ toUpperCase (ErrorType_string (type p)) @ ''] '' @ message p)
   \<and> (logErrorToConsole sf e = Inr entry' \<longrightarrow>
      transition sf rt c (SET_GLOBAL_ERROR (Some e)) = Inr (c\<lparr>globalError := Some e\<rparr>, [entry']))
   \<and> transition sf rt c (SET_GLOBAL_ERROR None) = Inr (c\<lparr>globalError := None\<rparr>, [])"
  by (auto simp: ADD_ERROR_returns logErrorToConsole_def newError_def split: option.splits sum.splits)

lemma toUpperCase_types:
  "map (\<lambda>t. toUpperCase (ErrorType_string t)) [network, validation, cart, checkout, general, auth]
     = [''NETWORK'', ''VALIDATION'', ''CART'', ''CHECKOUT'', ''GENERAL'', ''AUTH'']"
  by (simp add: toUpperCase_def upper_char_def)

text \<open>
  C4. The property holds in the state machine and fails in \<^verbatim>\<open>ErrorProvider\<close>:
  with the default props and an empty list, \<^verbatim>\<open>addError\<close> stores the record and makes
  no \<^verbatim>\<open>console.error\<close> call, and \<^verbatim>\<open>setGlobalError\<close> with that record makes none
  either, where the machine on the same input makes one.
\<close>

theorem C4_ErrorProvider_addError_logs_nothing:
  "errors' (fst (addError default_props 1000 ''0.i''
       \<lparr>errors' = [], isOnline' = True, globalError' = None\<rparr>
       \<lparr>errors' = [], isOnline' = True, globalError' = None\<rparr>
       (createNetworkError ''Connection failed'' None :: (sample_context, unit) CreateErrorInput)))
     = [appError 1000 ''0.i'' (createNetworkError ''Connection failed'' None)]
   \<and> snd (addError default_props 1000 ''0.i''
       \<lparr>errors' = [], isOnline' = True, globalError' = None\<rparr>
       \<lparr>errors' = [], isOnline' = True, globalError' = None\<rparr>
       (createNetworkError ''Connection failed'' None :: (sample_context, unit) CreateErrorInput))
     = []
   \<and> transition sample_stringify \<lparr>now_id = 1000, now_ts = 1000, random36 = ''0.i''\<rparr>
       (initial_context None)
       (ADD_ERROR (createNetworkError ''Connection failed'' None :: (sample_context, unit) CreateErrorInput))
     = Inr (\<lparr>errors = [newError \<lparr>now_id = 1000, now_ts = 1000, random36 = ''0.i''\<rparr>
                         (createNetworkError ''Connection failed'' None)],
             globalError = None, isOnline = True, maxErrors = 50\<rparr>,
            [[''[NETWORK] Connection failed'', '''', '''', '''']])
   \<and> snd (setGlobalError \<lparr>errors' = [], isOnline' = True, globalError' = None\<rparr>
       (Some (appError 1000 ''0.i''
          (createNetworkError ''Connection failed'' None :: (sample_context, unit) CreateErrorInput))))
     = []"
  by (simp add: addError_def setGlobalError_def default_props_def slice_from_def Let_def
      logErrorToConsole_def newError_def createNetworkError_def toUpperCase_def upper_char_def
      initial_context_def)

section \<open>Going offline\<close>

text \<open>
  C5 as first stated fails: on the initial snapshot with \<open>online\<close> true,
  \<^verbatim>\<open>SET_ONLINE_STATUS\<close> with \<^verbatim>\<open>false\<close> clears the flag and leaves the records empty.
\<close>

theorem C5_counterexample:
  "isOnline (initial_context (Some True) :: (sample_context, unit) ErrorMachineContext)
   \<and> transition sample_stringify \<lparr>now_id = 1000, now_ts = 1000, random36 = ''0.i''\<rparr>
        (initial_context (Some True) :: (sample_context, unit) ErrorMachineContext)
        (SET_ONLINE_STATUS False)
      = Inr (\<lparr>errors = [], globalError = None, isOnline = False, maxErrors = 50\<rparr>, [])"
  by (simp add: initial_context_def)

text \<open>
  C5 (as amended). The offline handler of the toast provider, which sends
  SetOnlineStatus(false) and then AddError, never throws, sets the connectivity flag to
  false and, for a capacity of at least 1, produces exactly one new record: of category
  network, marked recoverable, carrying the connectivity-lost message, placed last in
  the records (which are cut to the capacity, and are the old records followed by the
  new one when there was room); it is logged once. The SetOnlineStatus command alone
  changes only the flag.
\<close>

theorem C5_handleOffline:
  assumes "1 \<le> maxErrors c"
  shows "\<exists>c' out. handleOffline sf rt c = Inr (c', out)
     \<and> isOnline c' = False
     \<and> errors c'
         = drop (length (errors c) + 1 - nat (maxErrors c)) (errors c @ [newError rt offline_payload])
     \<and> last (errors c') = newError rt offline_payload
     \<and> (int (length (errors c)) < maxErrors c \<longrightarrow>
          errors c' = errors c @ [newError rt offline_payload])
     \<and> type (newError rt offline_payload) = network
     \<and> recoverable (newError rt offline_payload) = Some True
     \<and> message (newError rt offline_payload) = offline_message
     \<and> globalError c' = globalError c
     \<and> maxErrors c' = maxErrors c
     \<and> out = [[''[NETWORK] '' @ offline_message, [], [], []]]"
proof -
  let ?e = "newError rt offline_payload"
  let ?k = "length (errors c) + 1 - nat (maxErrors c)"
  let ?c' = "c\<lparr>isOnline := False, errors := drop ?k (errors c @ [?e])\<rparr>"
  have nc: "context' ?e = None" by (simp add: newError_def offline_payload_def)
  have log: "logErrorToConsole sf ?e = Inr [''[NETWORK] '' @ offline_message, [], [], []]"
    by (simp add: logErrorToConsole_no_context[OF nc])
       (simp add: newError_def offline_payload_def toUpperCase_def upper_char_def)
  have run: "handleOffline sf rt c
               = Inr (?c', [[''[NETWORK] '' @ offline_message, [], [], []]])"
    using assms by (simp add: handleOffline_def Let_def log slice_from_neg)
  from assms have "?k \<le> length (errors c)" by linarith
  then have "drop ?k (errors c @ [?e]) = drop ?k (errors c) @ [?e]" by simp
  then have l: "last (errors ?c') = ?e" by simp
  have room: "errors ?c' = errors c @ [?e]" if "int (length (errors c)) < maxErrors c"
  proof -
    from that have "?k = 0" by linarith
    then show ?thesis by simp
  qed
  have fields: "type ?e = network" "recoverable ?e = Some True" "message ?e = offline_message"
    by (simp_all add: newError_def offline_payload_def)
  have frame: "isOnline ?c' = False" "errors ?c' = drop ?k (errors c @ [?e])"
    "globalError ?c' = globalError c" "maxErrors ?c' = maxErrors c"
    by simp_all
  from run l room fields frame show ?thesis by blast
qed

text \<open>An instance: the initial snapshot, online; afterwards offline with one record.\<close>

theorem C5_witness:
  "(1::int) \<le> maxErrors (initial_context (Some True) :: (sample_context, unit) ErrorMachineContext)
   \<and> (\<exists>c' out. handleOffline sample_stringify \<lparr>now_id = 1000, now_ts = 1000, random36 = ''0.i''\<rparr>
        (initial_context (Some True) :: (sample_context, unit) ErrorMachineContext) = Inr (c', out)
       \<and> isOnline c' = False
       \<and> errors c' = [newError \<lparr>now_id = 1000, now_ts = 1000, random36 = ''0.i''\<rparr> offline_payload]
       \<and> length out = 1)"
proof -
  let ?c = "initial_context (Some True) :: (sample_context, unit) ErrorMachineContext"
  let ?rt = "\<lparr>now_id = 1000, now_ts = 1000, random36 = ''0.i''\<rparr>"
  have h: "1 \<le> maxErrors ?c" by (simp add: initial_context_def)
  have r: "int (length (errors ?c)) < maxErrors ?c" by (simp add: initial_context_def)
  have n: "errors ?c = []" by (simp add: initial_context_def)
  from C5_handleOffline[OF h, of sample_stringify ?rt] r
  obtain c' out where t: "handleOffline sample_stringify ?rt ?c = Inr (c', out)"
    and o: "isOnline c' = False"
    and e: "errors c' = errors ?c @ [newError ?rt offline_payload]"
    and l: "out = [[''[NETWORK] '' @ offline_message, [], [], []]]"
    by blast
  from e have "errors c' = [newError ?rt offline_payload]" by (simp only: n append_Nil)
  moreover from l have "length out = 1" by simp
  ultimately show ?thesis using h t o by blast
qed

section \<open>Deduplication\<close>

text \<open>
  What \<^verbatim>\<open>addError\<close> does in general: it returns early when the list of its render holds a
  record of the same type and message younger than the window, and otherwise appends to
  the pending list and cuts it to the capacity.
\<close>

lemma addError_cases:
  "addError props now rnd rendered prev input =
     (if \<exists>r \<in> set (errors' rendered).
           message r = message input \<and> type r = type input
           \<and> now - timestamp r < deduplicationWindow props
      then (prev, [])
      else (prev\<lparr>errors' := slice_from (- maxErrors' props) (errors' prev @ [appError now rnd input])\<rparr>,
            []))"
  by (simp add: addError_def list_ex_iff Let_def)

text \<open>
  With room for one record only, a request outside the window is appended and the
  stored record is evicted.
\<close>

lemma addError_full_list_evicts:
  "map id' (errors' (fst (addError \<lparr>maxErrors' = 1, deduplicationWindow = 1000\<rparr> 5000 ''0.j''
       \<lparr>errors' = [appError 0 ''0.i''
                     (createValidationError ''Required field'' None :: (sample_context, unit) CreateErrorInput)],
        isOnline' = True, globalError' = None\<rparr>
       \<lparr>errors' = [appError 0 ''0.i''
                     (createValidationError ''Required field'' None :: (sample_context, unit) CreateErrorInput)],
        isOnline' = True, globalError' = None\<rparr>
       (createValidationError ''Required field'' None))))
   = [''error_5000_j'']"
  by (simp add: addError_def slice_from_def Let_def appError_def createValidationError_def
      number_to_string_def nat_to_string.simps digit_char_def substr_def)

text \<open>
  C6. The deduplicating store fails the property when two matching requests go through
  the callback of one render. With the default props (window 1000 ms) and an empty
  rendered list, the request "Required field" of type validation at time 0 is stored;
  the same request at time 200 through the same callback is tested against the empty
  rendered list, not against the pending list that holds the first record, and is
  stored too. From a render that shows the first record the second request is
  suppressed and the state is unchanged.
\<close>

theorem C6_same_render_not_deduplicated:
  "addError default_props 0 ''0.i''
       \<lparr>errors' = [], isOnline' = True, globalError' = None\<rparr>
       \<lparr>errors' = [], isOnline' = True, globalError' = None\<rparr>
       (createValidationError ''Required field'' None :: (sample_context, unit) CreateErrorInput)
     = (\<lparr>errors' = [appError 0 ''0.i'' (createValidationError ''Required field'' None)],
         isOnline' = True, globalError' = None\<rparr>, [])
   \<and> 200 - timestamp (appError 0 ''0.i''
         (createValidationError ''Required field'' None :: (sample_context, unit) CreateErrorInput))
       < deduplicationWindow default_props
   \<and> addError default_props 200 ''0.j''
       \<lparr>errors' = [], isOnline' = True, globalError' = None\<rparr>
       \<lparr>errors' = [appError 0 ''0.i''
                     (createValidationError ''Required field'' None :: (sample_context, unit) CreateErrorInput)],
        isOnline' = True, globalError' = None\<rparr>
       (createValidationError ''Required field'' None)
     = (\<lparr>errors' = [appError 0 ''0.i'' (createValidationError ''Required field'' None),
                    appError 200 ''0.j'' (createValidationError ''Required field'' None)],
         isOnline' = True, globalError' = None\<rparr>, [])
   \<and> map id' [appError 0 ''0.i''
                 (createValidationError ''Required field'' None :: (sample_context, unit) CreateErrorInput),
               appError 200 ''0.j'' (createValidationError ''Required field'' None)]
     = [''error_0_i'', ''error_200_j'']
   \<and> addError default_props 200 ''0.j''
       \<lparr>errors' = [appError 0 ''0.i''
                     (createValidationError ''Required field'' None :: (sample_context, unit) CreateErrorInput)],
        isOnline' = True, globalError' = None\<rparr>
       \<lparr>errors' = [appError 0 ''0.i''
                     (createValidationError ''Required field'' None :: (sample_context, unit) CreateErrorInput)],
        isOnline' = True, globalError' = None\<rparr>
       (createValidationError ''Required field'' None)
     = (\<lparr>errors' = [appError 0 ''0.i'' (createValidationError ''Required field'' None)],
         isOnline' = True, globalError' = None\<rparr>, [])"
  by (simp add: addError_def default_props_def slice_from_def Let_def appError_def
      createValidationError_def number_to_string_def nat_to_string.simps digit_char_def
      substr_def)

section \<open>REMOVE_ERROR\<close>

text \<open>
  C7. For every snapshot, RemoveError(id) removes exactly the record whose id matches
  (ids in the records being unique) and leaves the other records in their order; when no
  record has that id, the snapshot is unchanged. The command never throws, logs nothing
  and never touches the other fields.
\<close>

theorem C7_remove_error:
  "(distinct (map id' (errors c)) \<and> r \<in> set (errors c) \<and> id' r = x \<longrightarrow>
      (\<exists>c'. transition sf rt c (REMOVE_ERROR x) = Inr (c', [])
         \<and> errors c' = remove1 r (errors c)))
   \<and> (x \<notin> id' ` set (errors c) \<longrightarrow> transition sf rt c (REMOVE_ERROR x) = Inr (c, []))
   \<and> (\<exists>c'. transition sf rt c (REMOVE_ERROR x) = Inr (c', [])
         \<and> globalError c' = globalError c
         \<and> isOnline c' = isOnline c
         \<and> maxErrors c' = maxErrors c)"
proof -
  have a: "filter (\<lambda>error. id' error \<noteq> id' r) xs = remove1 r xs"
    if "distinct (map id' xs)" and "r \<in> set xs" for xs :: "('a, 'b) AppError list"
    using that
  proof (induction xs)
    case Nil
    then show ?case by simp
  next
    case (Cons y ys)
    show ?case
    proof (cases "y = r")
      case True
      with Cons.prems(1) have "id' r \<notin> id' ` set ys" by simp
      then have "\<forall>e \<in> set ys. id' e \<noteq> id' r" by (metis image_eqI)
      then have "filter (\<lambda>error. id' error \<noteq> id' r) ys = ys" by (simp add: filter_id_conv)
      with True show ?thesis by simp
    next
      case False
      with Cons.prems have "r \<in> set ys" and "id' y \<noteq> id' r" and "distinct (map id' ys)"
        by auto
      with Cons.IH False show ?thesis by auto
    qed
  qed
  have b: "filter (\<lambda>error. id' error \<noteq> x) (errors c) = errors c" if "x \<notin> id' ` set (errors c)"
    using that by (auto simp: filter_id_conv)
  let ?c' = "c\<lparr>errors := filter (\<lambda>error. id' error \<noteq> x) (errors c)\<rparr>"
  have t: "transition sf rt c (REMOVE_ERROR x) = Inr (?c', [])" by simp
  have 1: "\<exists>c'. transition sf rt c (REMOVE_ERROR x) = Inr (c', [])
         \<and> errors c' = remove1 r (errors c)"
    if "distinct (map id' (errors c))" and "r \<in> set (errors c)" and "id' r = x"
  proof -
    from a[OF that(1,2)] that(3) have "errors ?c' = remove1 r (errors c)" by simp
    with t show ?thesis by blast
  qed
  have 2: "transition sf rt c (REMOVE_ERROR x) = Inr (c, [])" if "x \<notin> id' ` set (errors c)"
  proof -
    from b[OF that] have "?c' = c" by simp
    with t show ?thesis by simp
  qed
  have "globalError ?c' = globalError c" and "isOnline ?c' = isOnline c"
    and "maxErrors ?c' = maxErrors c" by simp_all
  with t have 3: "\<exists>c'. transition sf rt c (REMOVE_ERROR x) = Inr (c', [])
         \<and> globalError c' = globalError c
         \<and> isOnline c' = isOnline c
         \<and> maxErrors c' = maxErrors c" by blast
  from 1 2 3 show ?thesis by blast
qed

text \<open>
  An instance: records A and B; removing A's id leaves B; removing an id no record has
  changes nothing.
\<close>

theorem C7_witness:
  "distinct (map id' [newError \<lparr>now_id = 1000, now_ts = 1000, random36 = ''0.i''\<rparr>
                        (createCartError ''A'' None :: (sample_context, unit) CreateErrorInput),
                      newError \<lparr>now_id = 1001, now_ts = 1001, random36 = ''0.j''\<rparr>
                        (createCartError ''B'' None)])
   \<and> (\<exists>c'. transition sample_stringify \<lparr>now_id = 1002, now_ts = 1002, random36 = ''0.k''\<rparr>
         \<lparr>errors = [newError \<lparr>now_id = 1000, now_ts = 1000, random36 = ''0.i''\<rparr>
                        (createCartError ''A'' None :: (sample_context, unit) CreateErrorInput),
                      newError \<lparr>now_id = 1001, now_ts = 1001, random36 = ''0.j''\<rparr>
                        (createCartError ''B'' None)],
           globalError = None, isOnline = True, maxErrors = 2\<rparr>
         (REMOVE_ERROR ''error_1000_i'') = Inr (c', [])
       \<and> map id' (errors c') = [''error_1001_j''])
   \<and> transition sample_stringify \<lparr>now_id = 1002, now_ts = 1002, random36 = ''0.k''\<rparr>
         \<lparr>errors = [newError \<lparr>now_id = 1000, now_ts = 1000, random36 = ''0.i''\<rparr>
                        (createCartError ''A'' None :: (sample_context, unit) CreateErrorInput),
                      newError \<lparr>now_id = 1001, now_ts = 1001, random36 = ''0.j''\<rparr>
                        (createCartError ''B'' None)],
           globalError = None, isOnline = True, maxErrors = 2\<rparr>
         (REMOVE_ERROR ''error_9_z'')
       = Inr (\<lparr>errors = [newError \<lparr>now_id = 1000, now_ts = 1000, random36 = ''0.i''\<rparr>
                        (createCartError ''A'' None :: (sample_context, unit) CreateErrorInput),
                      newError \<lparr>now_id = 1001, now_ts = 1001, random36 = ''0.j''\<rparr>
                        (createCartError ''B'' None)],
           globalError = None, isOnline = True, maxErrors = 2\<rparr>, [])"
proof -
  let ?A = "newError \<lparr>now_id = 1000, now_ts = 1000, random36 = ''0.i''\<rparr>
                        (createCartError ''A'' None :: (sample_context, unit) CreateErrorInput)"
  let ?B = "newError \<lparr>now_id = 1001, now_ts = 1001, random36 = ''0.j''\<rparr>
                        (createCartError ''B'' None :: (sample_context, unit) CreateErrorInput)"
  let ?c = "\<lparr>errors = [?A, ?B], globalError = None, isOnline = True, maxErrors = 2\<rparr>"
  let ?rt = "\<lparr>now_id = 1002, now_ts = 1002, random36 = ''0.k''\<rparr>"
  have idA: "id' ?A = ''error_1000_i''" and idB: "id' ?B = ''error_1001_j''"
    by (simp_all add: newError_def generateErrorId_def number_to_string_def
        nat_to_string.simps digit_char_def substr_def)
  have d: "distinct (map id' (errors ?c))" by (simp add: idA idB)
  have m: "?A \<in> set (errors ?c)" by simp
  have n: "''error_9_z'' \<notin> id' ` set (errors ?c)" by (simp add: idA idB)
  note at_A = C7_remove_error[of ?c ?A "''error_1000_i''" sample_stringify ?rt]
  note at_z = C7_remove_error[of ?c ?A "''error_9_z''" sample_stringify ?rt]
  from d m idA
  have pre: "distinct (map id' (errors ?c)) \<and> ?A \<in> set (errors ?c) \<and> id' ?A = ''error_1000_i''"
    by (intro conjI)
  from at_A have "distinct (map id' (errors ?c)) \<and> ?A \<in> set (errors ?c) \<and> id' ?A = ''error_1000_i''
      \<longrightarrow> (\<exists>c'. transition sample_stringify ?rt ?c (REMOVE_ERROR ''error_1000_i'') = Inr (c', [])
             \<and> errors c' = remove1 ?A (errors ?c))"
    by (rule conjunct1)
  from this pre
  have "\<exists>c'. transition sample_stringify ?rt ?c (REMOVE_ERROR ''error_1000_i'') = Inr (c', [])
             \<and> errors c' = remove1 ?A (errors ?c)"
    by (rule mp)
  then obtain c' where t: "transition sample_stringify ?rt ?c (REMOVE_ERROR ''error_1000_i'') = Inr (c', [])"
    and e: "errors c' = remove1 ?A (errors ?c)"
    by (elim exE conjE)
  have "remove1 ?A (errors ?c) = [?B]" by simp
  with e have "map id' (errors c') = [''error_1001_j'']" by (simp only: list.map idB)
  with t have 1: "\<exists>c'. transition sample_stringify ?rt ?c (REMOVE_ERROR ''error_1000_i'') = Inr (c', [])
       \<and> map id' (errors c') = [''error_1001_j'']"
    by (intro exI[of _ c'] conjI)
  from at_z have "(''error_9_z'' \<notin> id' ` set (errors ?c)
      \<longrightarrow> transition sample_stringify ?rt ?c (REMOVE_ERROR ''error_9_z'') = Inr (?c, []))"
    by (rule conjunct1[OF conjunct2])
  from this n
  have 2: "transition sample_stringify ?rt ?c (REMOVE_ERROR ''error_9_z'') = Inr (?c, [])"
    by (rule mp)
  from d have 0: "distinct (map id' [?A, ?B])" by simp
  from 0 1 2 show ?thesis by (intro conjI)
qed

section \<open>CLEAR_ERRORS\<close>

text \<open>
  C8. For every snapshot, ClearErrors empties the records list and leaves the
  globalError slot, the online flag and the capacity value exactly as they were; it
  never throws and logs nothing.
\<close>

theorem C8_clear_errors_frame:
  "\<exists>c'. transition stringify rt c CLEAR_ERRORS = Inr (c', [])
     \<and> errors c' = []
     \<and> globalError c' = globalError c
     \<and> isOnline c' = isOnline c
     \<and> maxErrors c' = maxErrors c"
  by simp

section \<open>Identifiers\<close>

text \<open>
  The identifier of a new record is built by the registry from the clock and the random
  number; the creation request has no field for it.
\<close>

lemma id_assigned_by_registry: "id' (newError rt p) = generateErrorId rt"
  by (simp add: newError_def)

text \<open>
  C9. Uniqueness of the ids fails: two AddError commands processed in the same
  millisecond for which \<^verbatim>\<open>Math.random()\<close> returns the same value (here 0.5, \<^verbatim>\<open>0.i\<close> in
  base 36) store two records with one id.
\<close>

theorem C9_same_draw_same_id:
  "map id' (errors (run sample_stringify (initial_context None)
     [(\<lparr>now_id = 1000, now_ts = 1000, random36 = ''0.i''\<rparr>,
         ADD_ERROR (createCartError ''A'' None :: (sample_context, unit) CreateErrorInput)),
      (\<lparr>now_id = 1000, now_ts = 1000, random36 = ''0.i''\<rparr>,
         ADD_ERROR (createCartError ''B'' None))]))
   = [''error_1000_i'', ''error_1000_i'']"
  by (simp add: run_def step_def initial_context_def slice_from_def Let_def newError_def
      logErrorToConsole_def createCartError_def
      generateErrorId_def number_to_string_def nat_to_string.simps digit_char_def substr_def)

section \<open>The hooks outside and inside their providers\<close>

text \<open>
  C10. \<^verbatim>\<open>useErrorToast\<close> and \<^verbatim>\<open>useErrorContext\<close> called with no enclosing provider of
  their context throw an error instead of returning \<^verbatim>\<open>null\<close> or \<^verbatim>\<open>undefined\<close>;
  called under their provider they return the provider's value and do not throw.
\<close>

theorem C10_hooks_fail_fast:
  "useErrorToast None = Inl (Error ''useErrorToast must be used within an ErrorToastProvider'')
   \<and> useErrorContext None = Inl (Error ''useErrorContext must be used within an ErrorProvider'')
   \<and> useErrorToast (Provider_value v) = Inr (Object v)
   \<and> useErrorContext (Provider_value v) = Inr (Object v)"
  by (simp add: useErrorToast_def useErrorContext_def useContext_def Provider_value_def)

end
